theory Spec2Isabelle
  imports Main "HOL-Library.Sublist"
begin

section \<open>JavaScript strings\<close>

text \<open>
  A JavaScript string is a sequence of UTF-16 code units; \<open>includes\<close>, \<open>trim\<close>,
  \<open>split\<close> and the template literals of the source all work on code units. The
  messages of the source are Vietnamese, so a string is a list of code units (as natural
  numbers) and a literal of the source is written as its ASCII runs (\<open>str ''...''\<close>)
  joined with the code units of the other characters.
\<close>

type_synonym jsstring = "nat list"

definition str :: "string \<Rightarrow> jsstring" where
  "str s = map of_char s"

text \<open>\<^verbatim>\<open>s.includes(n)\<close>: \<open>n\<close> occurs in \<open>s\<close> as a contiguous run.\<close>

fun js_includes :: "jsstring \<Rightarrow> jsstring \<Rightarrow> bool" where
  "js_includes [] n = (n = [])"
| "js_includes (c # cs) n = (prefix n (c # cs) \<or> js_includes cs n)"

text \<open>
  \<^verbatim>\<open>s.trim()\<close> strips the WhiteSpace and LineTerminator code units of ECMAScript
  from both ends.
\<close>

definition is_white :: "nat \<Rightarrow> bool" where
  "is_white c = (c \<in> {9, 10, 11, 12, 13, 32, 160, 5760, 8232, 8233, 8239, 8287, 12288, 65279}
                 \<or> (8192 \<le> c \<and> c \<le> 8202))"

definition trim :: "jsstring \<Rightarrow> jsstring" where
  "trim s = rev (dropWhile is_white (rev (dropWhile is_white s)))"

text \<open>
  A value of type \<open>string | null | undefined\<close> is a \<open>jsstring option\<close>. It is truthy
  when it is a non-empty string; in a template literal an absent value prints as
  \<open>undefined\<close>.
\<close>

definition truthy :: "jsstring option \<Rightarrow> bool" where
  "truthy v = (case v of None \<Rightarrow> False | Some s \<Rightarrow> s \<noteq> [])"

definition show_str :: "jsstring option \<Rightarrow> jsstring" where
  "show_str v = (case v of None \<Rightarrow> str ''undefined'' | Some s \<Rightarrow> s)"

text \<open>The decimal digits of a number, as a template literal prints \<^verbatim>\<open>Date.now()\<close>.\<close>

fun show_nat :: "nat \<Rightarrow> jsstring" where
  "show_nat n = (if n < 10 then [48 + n] else show_nat (n div 10) @ [48 + n mod 10])"

declare show_nat.simps [simp del]

text \<open>\<^verbatim>\<open>s.split(',')[1]\<close>: the run between the first and the second comma, if any.\<close>

definition split_second :: "jsstring \<Rightarrow> jsstring option" where
  "split_second s =
     (case dropWhile (\<lambda>c. c \<noteq> 44) s of
        [] \<Rightarrow> None
      | _ # rest \<Rightarrow> Some (takeWhile (\<lambda>c. c \<noteq> 44) rest))"

section \<open>Errors, files, the remote service and the browser\<close>

text \<open>A thrown value: an \<open>Error\<close> object with its \<open>message\<close>, which may be absent.\<close>

datatype js_error = Error (message: "jsstring option")

text \<open>
  \<^verbatim>\<open>FileWithPreview\<close> of \<^verbatim>\<open>types.ts\<close>: a \<open>File\<close> (its name and MIME type, and what
  \<open>FileReader.readAsDataURL\<close> delivers for it: \<open>None\<close> when reading fails) with a
  preview string.
\<close>

record FileWithPreview =
  name :: jsstring
  type :: jsstring
  readAsDataURL :: "jsstring option"
  preview :: jsstring

text \<open>
  The response of \<open>generateContent\<close>, with the optional fields the source tests. The
  field \<open>promptFeedback\<close> is only printed, so it is left out.
\<close>

datatype blob = Blob (blob_data: "jsstring option") (blob_mimeType: "jsstring option")
datatype part = Part (inlineData: "blob option") (part_text: "jsstring option")
datatype content = Content (parts: "part list option")
datatype candidate = Candidate (content: "content option")
datatype response = Response (candidates: "candidate list option")

text \<open>
  The two requests the source sends, each with the key of its client:
  \<^item> \<open>TextRequest key model contents\<close>, the validation call;
  \<^item> \<open>ImageRequest key model data mimeType text\<close>, one inline image and one text
    part, with the response modality IMAGE.
\<close>

datatype request =
    TextRequest jsstring jsstring jsstring
  | ImageRequest jsstring jsstring jsstring jsstring jsstring

text \<open>
  \<^verbatim>\<open>GeneratedImage\<close> of \<^verbatim>\<open>types.ts\<close>. Its fields \<open>id\<close> and \<open>prompt\<close> are named
  \<open>image_id\<close> and \<open>image_prompt\<close> here: \<open>id\<close> is the identity function of HOL, and
  \<open>prompt\<close> is also a state variable of the component.
\<close>

record GeneratedImage =
  image_id :: jsstring
  url :: jsstring
  image_prompt :: jsstring
  originalFileName :: jsstring

text \<open>
  What the source cannot decide is an oracle of the environment: the outcome of the
  \<open>k\<close>-th remote call (\<open>Inl\<close> the error it throws), the value of the \<open>k\<close>-th
  reading of the clock, \<open>JSON.stringify\<close> and \<open>JSON.parse\<close> on the gallery (\<open>None\<close>
  when \<open>parse\<close> throws), and whether \<open>localStorage.setItem\<close> throws (a full
  storage) for a given content, key and value.
\<close>

record env =
  generateContent :: "nat \<Rightarrow> request \<Rightarrow> js_error + response"
  Date_now :: "nat \<Rightarrow> nat"
  JSON_stringify :: "GeneratedImage list \<Rightarrow> jsstring"
  JSON_parse :: "jsstring \<Rightarrow> GeneratedImage list option"
  setItem_throws :: "(jsstring \<rightharpoonup> jsstring) \<Rightarrow> jsstring \<Rightarrow> jsstring \<Rightarrow> bool"

text \<open>
  The world the program acts on: \<open>localStorage\<close>, the labels printed with
  \<open>console.error\<close>, the alerts shown, the remote calls issued so far (oldest first),
  the number of clock readings, and the files written through a directory handle
  (name and data URL).
\<close>

record world =
  localStorage :: "jsstring \<rightharpoonup> jsstring"
  console :: "jsstring list"
  alerts :: "jsstring list"
  requests :: "request list"
  clockReads :: nat
  savedFiles :: "(jsstring \<times> jsstring) list"

definition console_error :: "world \<Rightarrow> jsstring \<Rightarrow> world" where
  "console_error w label = w\<lparr>console := console w @ [label]\<rparr>"

definition callRemote :: "env \<Rightarrow> world \<Rightarrow> request \<Rightarrow> (js_error + response) \<times> world" where
  "callRemote e w r =
     (generateContent e (length (requests w)) r, w\<lparr>requests := requests w @ [r]\<rparr>)"

section \<open>The service: the two copies of geminiService\<close>

text \<open>
  The repository holds two copies of the service. The plain names below are the copy
  with the model selection and the quota handling (\<^verbatim>\<open>src/unnamed/part_000\<close>); the
  names ending in \<open>_svc\<close> are the copy \<^verbatim>\<open>src/services/geminiService.ts\<close>, which is
  the one \<^verbatim>\<open>src/App.tsx\<close> imports.
\<close>

definition fileToBase64 :: "FileWithPreview \<Rightarrow> jsstring option" where
  "fileToBase64 file =
     (case readAsDataURL file of None \<Rightarrow> None | Some result \<Rightarrow> split_second result)"

definition getApiKey :: "world \<Rightarrow> jsstring option" where
  "getApiKey w = localStorage w (str ''geminiApiKey'')"

definition getModel :: "world \<Rightarrow> jsstring" where
  "getModel w =
     (if truthy (localStorage w (str ''geminiModel''))
      then show_str (localStorage w (str ''geminiModel''))
      else str ''gemini-2.5-flash-image'')"

text \<open>
  The tests of the \<open>catch\<close> blocks on \<open>error.message\<close>:
  \<^verbatim>\<open>error.message && (error.message.includes(a) || error.message.includes(b))\<close>.
\<close>

definition message_has :: "js_error \<Rightarrow> jsstring \<Rightarrow> jsstring \<Rightarrow> bool" where
  "message_has error a b =
     (case message error of
        None \<Rightarrow> False
      | Some m \<Rightarrow> m \<noteq> [] \<and> (js_includes m a \<or> js_includes m b))"

definition is_quota :: "js_error \<Rightarrow> bool" where
  "is_quota error = message_has error (str ''RESOURCE_EXHAUSTED'') ([34] @ str ''code'' @ [34] @ str '':429'')"

definition is_credential :: "js_error \<Rightarrow> bool" where
  "is_credential error = message_has error (str ''API_KEY_INVALID'') (str ''permission'')"

definition validateApiKey :: "env \<Rightarrow> world \<Rightarrow> jsstring \<Rightarrow> bool \<times> world" where
  "validateApiKey e w apiKey =
     (if apiKey = [] then (False, w)
      else
        (case callRemote e w (TextRequest apiKey (str ''gemini-2.5-flash'') (str ''test'')) of
           (Inr _, w1) \<Rightarrow> (True, w1)
         | (Inl error, w1) \<Rightarrow>
             (let w2 = console_error w1 (str ''API Key validation failed:'')
              in if is_quota error then (True, w2) else (False, w2))))"

definition validateApiKey_svc :: "env \<Rightarrow> world \<Rightarrow> jsstring \<Rightarrow> bool \<times> world" where
  "validateApiKey_svc e w apiKey =
     (if apiKey = [] then (False, w)
      else
        (case callRemote e w (TextRequest apiKey (str ''gemini-2.5-flash'') (str ''test'')) of
           (Inr _, w1) \<Rightarrow> (True, w1)
         | (Inl error, w1) \<Rightarrow> (False, console_error w1 (str ''API Key validation failed:''))))"

text \<open>The messages of the errors the service throws.\<close>

definition msg_no_key :: jsstring where
  "msg_no_key = str ''Ch'' @ [432] @ str ''a c'' @ [7845] @ str ''u h'' @ [236] @ str ''nh Gemini API key. Vui l'' @ [242] @ str ''ng thi'' @ [7871] @ str ''t l'' @ [7853] @ str ''p trong c'' @ [224] @ str ''i '' @ [273, 7863] @ str ''t.''"

definition msg_encode :: jsstring where
  "msg_encode = str ''Kh'' @ [244] @ str ''ng th'' @ [7875] @ str '' m'' @ [227] @ str '' h'' @ [243] @ str ''a '' @ [7843] @ str ''nh sang base64.''"

definition msg_policy :: jsstring where
  "msg_policy = str ''Kh'' @ [244] @ str ''ng th'' @ [7875] @ str '' t'' @ [7841] @ str ''o '' @ [7843] @ str ''nh. Y'' @ [234] @ str ''u c'' @ [7847] @ str ''u c'' @ [7911] @ str ''a b'' @ [7841] @ str ''n c'' @ [243] @ str '' th'' @ [7875] @ str '' '' @ [273, 227] @ str '' vi ph'' @ [7841] @ str ''m ch'' @ [237] @ str ''nh s'' @ [225] @ str ''ch an to'' @ [224] @ str ''n.''"

definition msg_quota :: jsstring where
  "msg_quota =
     str ''L'' @ [7895] @ str ''i H'' @ [7841] @ str ''n m'' @ [7913] @ str ''c (Quota Exceeded):'' @ [10]
     @ str ''API Key c'' @ [7911] @ str ''a b'' @ [7841] @ str ''n '' @ [273, 227] @ str '' h'' @ [7871] @ str ''t h'' @ [7841] @ str ''n m'' @ [7913] @ str ''c s'' @ [7917] @ str '' d'' @ [7909] @ str ''ng mi'' @ [7877] @ str ''n ph'' @ [237] @ str ''. '' @ [10]
     @ str ''Vui l'' @ [242] @ str ''ng b'' @ [7853] @ str ''t t'' @ [237] @ str ''nh n'' @ [259] @ str ''ng thanh to'' @ [225] @ str ''n (billing) cho d'' @ [7921] @ str '' '' @ [225] @ str ''n Google Cloud c'' @ [7911] @ str ''a b'' @ [7841] @ str ''n '' @ [273, 7875] @ str '' ti'' @ [7871] @ str ''p t'' @ [7909] @ str ''c.'' @ [10, 10]
     @ str ''Truy c'' @ [7853] @ str ''p: ai.google.dev/gemini-api/docs/billing '' @ [273, 7875] @ str '' bi'' @ [7871] @ str ''t th'' @ [234] @ str ''m chi ti'' @ [7871] @ str ''t.''"

definition msg_credential :: jsstring where
  "msg_credential = str ''API Key kh'' @ [244] @ str ''ng h'' @ [7907] @ str ''p l'' @ [7879] @ str '' ho'' @ [7863] @ str ''c kh'' @ [244] @ str ''ng c'' @ [243] @ str '' quy'' @ [7873] @ str ''n c'' @ [7847] @ str ''n thi'' @ [7871] @ str ''t. Vui l'' @ [242] @ str ''ng ki'' @ [7875] @ str ''m tra l'' @ [7841] @ str ''i key trong c'' @ [224] @ str ''i '' @ [273, 7863] @ str ''t.''"

definition msg_unknown :: jsstring where
  "msg_unknown = [272, 227] @ str '' x'' @ [7843] @ str ''y ra l'' @ [7895] @ str ''i kh'' @ [244] @ str ''ng x'' @ [225] @ str ''c '' @ [273, 7883] @ str ''nh.''"

definition log_edit :: jsstring where
  "log_edit = str ''L'' @ [7895] @ str ''i khi ch'' @ [7881] @ str ''nh s'' @ [7917] @ str ''a '' @ [7843] @ str ''nh v'' @ [7899] @ str ''i Gemini API:''"

text \<open>
  The guard on the response: the parts of the first candidate, or \<open>None\<close> when the
  candidates are absent or empty, or the first has no content, or the content no parts.
\<close>

definition responseParts :: "response \<Rightarrow> part list option" where
  "responseParts r =
     (case candidates r of
        None \<Rightarrow> None
      | Some [] \<Rightarrow> None
      | Some (c # _) \<Rightarrow> (case content c of None \<Rightarrow> None | Some ct \<Rightarrow> parts ct))"

definition dataUrl :: "blob \<Rightarrow> jsstring" where
  "dataUrl b = str ''data:'' @ show_str (blob_mimeType b) @ str '';base64,'' @ show_str (blob_data b)"

text \<open>The loop over the parts: it returns at the first part with \<open>inlineData\<close>.\<close>

fun scanParts :: "part list \<Rightarrow> jsstring option" where
  "scanParts [] = None"
| "scanParts (p # ps) =
     (case inlineData p of Some b \<Rightarrow> Some (dataUrl b) | None \<Rightarrow> scanParts ps)"

text \<open>The \<open>catch\<close> block of \<open>editImageWithPrompt\<close>, in each copy.\<close>

definition editCatch :: "world \<Rightarrow> js_error \<Rightarrow> (js_error + jsstring option) \<times> world" where
  "editCatch w error =
     (let w1 = console_error w log_edit
      in if is_quota error then (Inl (Error (Some msg_quota)), w1)
         else if is_credential error then (Inl (Error (Some msg_credential)), w1)
         else (Inl (Error (Some (if truthy (message error) then show_str (message error)
                                  else msg_unknown))), w1))"

definition editCatch_svc :: "world \<Rightarrow> js_error \<Rightarrow> (js_error + jsstring option) \<times> world" where
  "editCatch_svc w error =
     (let w1 = console_error w log_edit
      in if is_credential error then (Inl (Error (Some msg_credential)), w1)
         else (Inl error, w1))"

definition editImageWithPrompt ::
  "env \<Rightarrow> world \<Rightarrow> FileWithPreview \<Rightarrow> jsstring \<Rightarrow> jsstring \<Rightarrow> (js_error + jsstring option) \<times> world"
where
  "editImageWithPrompt e w file prompt model =
     (if \<not> truthy (getApiKey w) then (Inl (Error (Some msg_no_key)), w)
      else if \<not> truthy (fileToBase64 file) then (Inl (Error (Some msg_encode)), w)
      else
        (case callRemote e w
                (ImageRequest (show_str (getApiKey w)) model (show_str (fileToBase64 file))
                   (type file) prompt) of
           (Inl error, w1) \<Rightarrow> editCatch w1 error
         | (Inr r, w1) \<Rightarrow>
             (case responseParts r of
                None \<Rightarrow>
                  editCatch
                    (console_error w1 (str ''Image generation failed or was blocked. Feedback:''))
                    (Error (Some msg_policy))
              | Some ps \<Rightarrow> (Inr (scanParts ps), w1))))"

definition editImageWithPrompt_svc ::
  "env \<Rightarrow> world \<Rightarrow> FileWithPreview \<Rightarrow> jsstring \<Rightarrow> (js_error + jsstring option) \<times> world"
where
  "editImageWithPrompt_svc e w file prompt =
     (if \<not> truthy (getApiKey w) then (Inl (Error (Some msg_no_key)), w)
      else if \<not> truthy (fileToBase64 file) then (Inl (Error (Some msg_encode)), w)
      else
        (case callRemote e w
                (ImageRequest (show_str (getApiKey w)) (str ''gemini-2.5-flash-image'')
                   (show_str (fileToBase64 file)) (type file) prompt) of
           (Inl error, w1) \<Rightarrow> editCatch_svc w1 error
         | (Inr r, w1) \<Rightarrow>
             (case responseParts r of
                None \<Rightarrow>
                  editCatch_svc
                    (console_error w1 (str ''Image generation failed or was blocked. Feedback:''))
                    (Error (Some msg_policy))
              | Some ps \<Rightarrow> (Inr (scanParts ps), w1))))"

section \<open>The component: App.tsx\<close>

text \<open>
  The state variables of the component that the handlers below read or write. The
  handlers run to completion from a state and a world: events that arrive while a handler
  waits for a promise are not interleaved.
\<close>

datatype PermissionState = Granted | Denied | Prompt

text \<open>
  A directory handle, with what its file system answers: the permission it reports when
  queried and when requested, and the error (if any) that creating and writing a file
  under it raises.
\<close>

record FileSystemDirectoryHandle =
  queryPermission :: PermissionState
  requestPermission :: PermissionState
  writeError :: "js_error option"

record app =
  uploadedFiles :: "FileWithPreview list"
  prompt :: jsstring
  generatedImages :: "GeneratedImage list"
  isLoading :: bool
  error :: "jsstring option"
  selectedImage :: "GeneratedImage option"
  directoryHandle :: "FileSystemDirectoryHandle option"
  hasApiKey :: bool
  isSettingsOpen :: bool
  apiKeyInput :: jsstring

text \<open>The key of the gallery in \<open>localStorage\<close>.\<close>

definition galleryKey :: jsstring where
  "galleryKey = str ''generatedImages''"

definition now :: "env \<Rightarrow> world \<Rightarrow> nat \<times> world" where
  "now e w = (Date_now e (clockReads w), w\<lparr>clockReads := Suc (clockReads w)\<rparr>)"

definition removeFile :: "app \<Rightarrow> jsstring \<Rightarrow> app" where
  "removeFile s fileName =
     s\<lparr>uploadedFiles := filter (\<lambda>file. name file \<noteq> fileName) (uploadedFiles s)\<rparr>"

definition alert_permission :: jsstring where
  "alert_permission = str ''Kh'' @ [244] @ str ''ng th'' @ [7875] @ str '' l'' @ [432] @ str ''u '' @ [7843] @ str ''nh t'' @ [7921] @ str '' '' @ [273, 7897] @ str ''ng: Quy'' @ [7873] @ str ''n ghi v'' @ [224] @ str ''o th'' @ [432] @ str '' m'' @ [7909] @ str ''c b'' @ [7883] @ str '' t'' @ [7915] @ str '' ch'' @ [7889] @ str ''i.''"

definition alert_save :: "jsstring \<Rightarrow> js_error \<Rightarrow> jsstring" where
  "alert_save fileName err =
     str ''Kh'' @ [244] @ str ''ng th'' @ [7875] @ str '' l'' @ [432] @ str ''u '' @ [7843] @ str ''nh '' @ [34]
     @ fileName
     @ [34] @ str '' t'' @ [7921] @ str '' '' @ [273, 7897] @ str ''ng. L'' @ [7895] @ str ''i: ''
     @ show_str (message err)"

definition saveImageToFileSystem ::
  "FileSystemDirectoryHandle option \<Rightarrow> world \<Rightarrow> jsstring \<Rightarrow> jsstring \<Rightarrow> world"
where
  "saveImageToFileSystem dh w imageDataUrl fileName =
     (case dh of
        None \<Rightarrow> w
      | Some h \<Rightarrow>
          (let permissionStatus =
                 (if queryPermission h = Prompt \<or> queryPermission h = Denied
                  then requestPermission h else queryPermission h)
           in if permissionStatus \<noteq> Granted
              then w\<lparr>alerts := alerts w @ [alert_permission]\<rparr>
              else
                (case writeError h of
                   None \<Rightarrow> w\<lparr>savedFiles := savedFiles w @ [(fileName, imageDataUrl)]\<rparr>
                 | Some err \<Rightarrow>
                     (console_error w (str ''Error saving image to file system:''))
                       \<lparr>alerts := alerts w @ [alert_save fileName err]\<rparr>)))"

text \<open>The three messages of the gate of \<open>handleGenerate\<close>.\<close>

definition msg_need_key :: jsstring where
  "msg_need_key = str ''Vui l'' @ [242] @ str ''ng thi'' @ [7871] @ str ''t l'' @ [7853] @ str ''p Gemini API Key trong ph'' @ [7847] @ str ''n c'' @ [224] @ str ''i '' @ [273, 7863] @ str ''t tr'' @ [432, 7899] @ str ''c khi t'' @ [7841] @ str ''o '' @ [7843] @ str ''nh.''"

definition msg_need_file :: jsstring where
  "msg_need_file = str ''Vui l'' @ [242] @ str ''ng t'' @ [7843] @ str ''i l'' @ [234] @ str ''n '' @ [237] @ str ''t nh'' @ [7845] @ str ''t m'' @ [7897] @ str ''t '' @ [7843] @ str ''nh '' @ [273, 7875] @ str '' ch'' @ [7881] @ str ''nh s'' @ [7917] @ str ''a.''"

definition msg_need_prompt :: jsstring where
  "msg_need_prompt = str ''Vui l'' @ [242] @ str ''ng nh'' @ [7853] @ str ''p l'' @ [7901] @ str ''i nh'' @ [7855] @ str ''c ch'' @ [7881] @ str ''nh s'' @ [7917] @ str ''a '' @ [7843] @ str ''nh.''"

text \<open>The two messages of the loop, for a file name (and the error caught).\<close>

definition msg_no_image :: "jsstring \<Rightarrow> jsstring" where
  "msg_no_image fileName =
     str ''Kh'' @ [244] @ str ''ng th'' @ [7875] @ str '' t'' @ [7841] @ str ''o '' @ [7843] @ str ''nh ch'' @ [7881] @ str ''nh s'' @ [7917] @ str ''a cho ''
     @ fileName @ str ''.''"

definition msg_processing :: "jsstring \<Rightarrow> js_error \<Rightarrow> jsstring" where
  "msg_processing fileName ex =
     str ''L'' @ [7895] @ str ''i khi x'' @ [7917] @ str '' l'' @ [253] @ str '' '' @ [7843] @ str ''nh ''
     @ fileName @ str '': '' @ show_str (message ex)"

text \<open>
  The updater given to \<open>setError\<close> in the loop:
  \<^verbatim>\<open>(prev) => `${prev ? prev + '\n' : ''}${m}`\<close>.
\<close>

definition appendError :: "jsstring option \<Rightarrow> jsstring \<Rightarrow> jsstring option" where
  "appendError prev m = Some ((if truthy prev then show_str prev @ [10] else []) @ m)"

text \<open>
  The test of the \<open>catch\<close> block of the loop:
  \<^verbatim>\<open>e.message && (e.message.includes('API Key') || e.message.includes('API key'))\<close>.
\<close>

definition mentionsApiKey :: "js_error \<Rightarrow> bool" where
  "mentionsApiKey ex = message_has ex (str ''API Key'') (str ''API key'')"

text \<open>
  \<open>handleGenerate\<close> calls the \<open>editImageWithPrompt\<close> it imports with a world, a file
  and the prompt: \<^verbatim>\<open>src/App.tsx\<close> imports \<^verbatim>\<open>./services/geminiService\<close>, so in the
  program this function is \<open>editImageWithPrompt_svc\<close>. The loop is written over any
  such function; what holds of it for every edit function holds of the program.
\<close>

type_synonym edit_fn =
  "world \<Rightarrow> FileWithPreview \<Rightarrow> jsstring \<Rightarrow> (js_error + jsstring option) \<times> world"

text \<open>
  One turn of the loop of \<open>handleGenerate\<close>, on the accumulator
  \<open>newGeneratedImagesThisRun\<close>, the state and the world.
\<close>

definition generateStep ::
  "edit_fn \<Rightarrow> env \<Rightarrow> jsstring \<Rightarrow> FileSystemDirectoryHandle option \<Rightarrow> FileWithPreview
     \<Rightarrow> GeneratedImage list \<times> app \<times> world \<Rightarrow> GeneratedImage list \<times> app \<times> world"
where
  "generateStep edit e p dh file st =
     (case st of (acc, s, w) \<Rightarrow>
        (case edit w file p of
           (Inr editedImageUrl, w1) \<Rightarrow>
             if truthy editedImageUrl then
               (case now e w1 of (t, w2) \<Rightarrow>
                  (let newImage =
                         \<lparr>image_id = name file @ str ''-'' @ show_nat t,
                          url = show_str editedImageUrl,
                          image_prompt = p,
                          originalFileName = name file\<rparr>
                   in (acc @ [newImage], s,
                       (case dh of
                          None \<Rightarrow> w2
                        | Some h \<Rightarrow>
                            (case now e w2 of (t2, w3) \<Rightarrow>
                               saveImageToFileSystem dh w3 (show_str editedImageUrl)
                                 (str ''gemini-generated-'' @ show_nat t2 @ str ''.png''))))))
             else (acc, s\<lparr>error := appendError (error s) (msg_no_image (name file))\<rparr>, w1)
         | (Inl ex, w1) \<Rightarrow>
             (let w2 = console_error w1 (str ''Error processing '' @ name file @ str '':'');
                  s1 = s\<lparr>error := appendError (error s) (msg_processing (name file) ex)\<rparr>
              in (acc,
                  if mentionsApiKey ex then s1\<lparr>hasApiKey := False, isSettingsOpen := True\<rparr>
                  else s1,
                  w2))))"

fun generateLoop ::
  "edit_fn \<Rightarrow> env \<Rightarrow> jsstring \<Rightarrow> FileSystemDirectoryHandle option \<Rightarrow> FileWithPreview list
     \<Rightarrow> GeneratedImage list \<times> app \<times> world \<Rightarrow> GeneratedImage list \<times> app \<times> world"
where
  "generateLoop edit e p dh [] st = st"
| "generateLoop edit e p dh (file # files) st =
     generateLoop edit e p dh files (generateStep edit e p dh file st)"

definition handleGenerate :: "edit_fn \<Rightarrow> env \<Rightarrow> app \<Rightarrow> world \<Rightarrow> app \<times> world" where
  "handleGenerate edit e s w =
     (if \<not> hasApiKey s then (s\<lparr>error := Some msg_need_key, isSettingsOpen := True\<rparr>, w)
      else if uploadedFiles s = [] then (s\<lparr>error := Some msg_need_file\<rparr>, w)
      else if trim (prompt s) = [] then (s\<lparr>error := Some msg_need_prompt\<rparr>, w)
      else
        (case generateLoop edit e (prompt s) (directoryHandle s) (uploadedFiles s)
                ([], s\<lparr>isLoading := True, error := None\<rparr>, w) of
           (newGeneratedImagesThisRun, s1, w1) \<Rightarrow>
             (s1\<lparr>generatedImages := newGeneratedImagesThisRun @ generatedImages s1,
                 isLoading := False\<rparr>, w1)))"

definition alert_deleted :: jsstring where
  "alert_deleted = [7842] @ str ''nh '' @ [273, 227] @ str '' '' @ [273, 432, 7907] @ str ''c x'' @ [243] @ str ''a!''"

definition handleDeleteImage :: "app \<Rightarrow> world \<Rightarrow> app \<times> world" where
  "handleDeleteImage s w =
     (case selectedImage s of
        None \<Rightarrow> (s, w)
      | Some sel \<Rightarrow>
          if image_id sel \<noteq> [] then
            (s\<lparr>generatedImages :=
                  filter (\<lambda>img. image_id img \<noteq> image_id sel) (generatedImages s),
                selectedImage := None\<rparr>,
             w\<lparr>alerts := alerts w @ [alert_deleted]\<rparr>)
          else (s, w))"

subsection \<open>The effects\<close>

text \<open>
  The effect that reads the key at mount (its probe of the directory picker, which only
  sets a flag of the view and prints a warning, is left out).
\<close>

definition keyEffect :: "app \<Rightarrow> world \<Rightarrow> app" where
  "keyEffect s w =
     (if truthy (getApiKey w) then s\<lparr>hasApiKey := True, apiKeyInput := show_str (getApiKey w)\<rparr>
      else s\<lparr>isSettingsOpen := True\<rparr>)"

text \<open>The effect that reads the stored gallery at mount.\<close>

definition hydrateEffect :: "env \<Rightarrow> app \<Rightarrow> world \<Rightarrow> app \<times> world" where
  "hydrateEffect e s w =
     (if truthy (localStorage w galleryKey) then
        (case JSON_parse e (show_str (localStorage w galleryKey)) of
           Some parsedImages \<Rightarrow> (s\<lparr>generatedImages := parsedImages\<rparr>, w)
         | None \<Rightarrow>
             (s, (console_error w (str ''Failed to parse stored images from localStorage:''))
                   \<lparr>localStorage := (localStorage w)(galleryKey := None)\<rparr>))
      else (s, w))"

text \<open>
  The effect that runs with the gallery of a render, at mount and whenever
  \<open>setGeneratedImages\<close> has installed a new array.
\<close>

definition persistEffect :: "env \<Rightarrow> world \<Rightarrow> GeneratedImage list \<Rightarrow> world" where
  "persistEffect e w gs =
     (if gs \<noteq> [] \<or> truthy (localStorage w galleryKey) then
        (if setItem_throws e (localStorage w) galleryKey (JSON_stringify e gs)
         then console_error w (str ''Failed to save images to localStorage:'')
         else w\<lparr>localStorage := (localStorage w)(galleryKey \<mapsto> JSON_stringify e gs)\<rparr>)
      else w)"

text \<open>The state of the first render.\<close>

definition initialApp :: app where
  "initialApp =
     \<lparr>uploadedFiles = [], prompt = [], generatedImages = [], isLoading = False, error = None,
      selectedImage = None, directoryHandle = None, hasApiKey = False, isSettingsOpen = False,
      apiKeyInput = []\<rparr>"

text \<open>
  Mounting the component: the effects run in the order of the source on the state of the
  first render, whose gallery is empty; when the second one has installed a parsed
  gallery, the component renders again and the third one runs on that gallery.
\<close>

definition startup :: "env \<Rightarrow> world \<Rightarrow> app \<times> world" where
  "startup e w =
     (case hydrateEffect e (keyEffect initialApp w) w of
        (s, w1) \<Rightarrow>
          (let w2 = persistEffect e w1 (generatedImages initialApp)
           in if truthy (localStorage w galleryKey)
                 \<and> JSON_parse e (show_str (localStorage w galleryKey)) \<noteq> None
              then (s, persistEffect e w2 (generatedImages s))
              else (s, w2)))"

text \<open>
  A handler followed by the render it causes: the third effect runs when the handler has
  called \<open>setGeneratedImages\<close>.
\<close>

definition deleteImage :: "env \<Rightarrow> app \<Rightarrow> world \<Rightarrow> app \<times> world" where
  "deleteImage e s w =
     (case handleDeleteImage s w of
        (s1, w1) \<Rightarrow>
          (case selectedImage s of
             None \<Rightarrow> (s1, w1)
           | Some sel \<Rightarrow>
               if image_id sel \<noteq> [] then (s1, persistEffect e w1 (generatedImages s1))
               else (s1, w1)))"

section \<open>Concrete environments for the examples\<close>

text \<open>\<^verbatim>\<open>parts.join(sep)\<close>.\<close>

fun join :: "jsstring \<Rightarrow> jsstring list \<Rightarrow> jsstring" where
  "join sep [] = []"
| "join sep [x] = x"
| "join sep (x # y # ys) = x @ sep @ join sep (y # ys)"

text \<open>
  The theorems hold for every environment. The examples use a serialiser that prints a
  gallery as \<open>JSON.stringify\<close> does when no string needs an escape, a parser that
  accepts the empty array only, a clock that shows 1000, 2000, ... and a storage that
  accepts every write.
\<close>

definition example_stringify :: "GeneratedImage list \<Rightarrow> jsstring" where
  "example_stringify gs =
     str ''['' @
     join (str '','')
       (map (\<lambda>g. str ''{'' @ [34] @ str ''id'' @ [34] @ str '':'' @ [34] @ image_id g @ [34]
                   @ str '','' @ [34] @ str ''url'' @ [34] @ str '':'' @ [34] @ url g @ [34]
                   @ str '','' @ [34] @ str ''prompt'' @ [34] @ str '':'' @ [34] @ image_prompt g @ [34]
                   @ str '','' @ [34] @ str ''originalFileName'' @ [34] @ str '':'' @ [34]
                   @ originalFileName g @ [34] @ str ''}'') gs)
     @ str '']''"

definition example_parse :: "jsstring \<Rightarrow> GeneratedImage list option" where
  "example_parse s = (if s = str ''[]'' then Some [] else None)"

definition example_env :: "(nat \<Rightarrow> request \<Rightarrow> js_error + response) \<Rightarrow> env" where
  "example_env remote =
     \<lparr>generateContent = remote, Date_now = (\<lambda>k. 1000 * Suc k),
      JSON_stringify = example_stringify, JSON_parse = example_parse,
      setItem_throws = (\<lambda>st k v. False)\<rparr>"

text \<open>A world whose storage holds a key and nothing else.\<close>

definition example_world :: world where
  "example_world =
     \<lparr>localStorage = [str ''geminiApiKey'' \<mapsto> str ''AIza-example''],
      console = [], alerts = [], requests = [], clockReads = 0, savedFiles = []\<rparr>"

text \<open>The message of the error the service raises when the quota of a key is used up.\<close>

definition quota_message :: jsstring where
  "quota_message =
     str ''{'' @ [34] @ str ''error'' @ [34] @ str '':{'' @ [34] @ str ''code'' @ [34] @ str '':429,'' @ [34]
     @ str ''message'' @ [34] @ str '':'' @ [34] @ str ''Resource has been exhausted (e.g. check quota).''
     @ [34] @ str '','' @ [34] @ str ''status'' @ [34] @ str '':'' @ [34] @ str ''RESOURCE_EXHAUSTED'' @ [34]
     @ str ''}}''"

definition quota_env :: env where
  "quota_env = example_env (\<lambda>k r. Inl (Error (Some quota_message)))"

definition example_file :: "jsstring \<Rightarrow> FileWithPreview" where
  "example_file n =
     \<lparr>name = n, type = str ''image/png'',
      readAsDataURL = Some (str ''data:image/png;base64,iVBORw0KGgo=''),
      preview = str ''data:image/png;base64,iVBORw0KGgo=''\<rparr>"

section \<open>The claims in the words of the specification\<close>



text \<open>A response with a text part followed by two image parts.\<close>

definition image_response :: response where
  "image_response =
     Response (Some [Candidate (Some (Content (Some
       [Part None (Some (str ''Here is your image'')),
        Part (Some (Blob (Some (str ''QUJD'')) (Some (str ''image/png'')))) None,
        Part (Some (Blob (Some (str ''REVG'')) (Some (str ''image/jpeg'')))) None])))])"

definition image_env :: env where
  "image_env = example_env (\<lambda>k r. Inr image_response)"

text \<open>A state with two uploaded files, a prompt and the key flag set.\<close>

definition example_app :: app where
  "example_app =
     initialApp\<lparr>uploadedFiles := [example_file (str ''a.png''), example_file (str ''b.png'')],
                prompt := str ''make it blue'', hasApiKey := True\<rparr>"

section \<open>The run of a batch\<close>

text \<open>
  The results of the edit calls of a run of the loop, in the order the calls are made:
  one call for each file, each on the world the turns before it have left.
\<close>

fun editResults ::
  "edit_fn \<Rightarrow> env \<Rightarrow> jsstring \<Rightarrow> FileSystemDirectoryHandle option \<Rightarrow> FileWithPreview list
     \<Rightarrow> GeneratedImage list \<times> app \<times> world \<Rightarrow> (js_error + jsstring option) list"
where
  "editResults edit e p dh [] st = []"
| "editResults edit e p dh (file # files) st =
     fst (edit (snd (snd st)) file p) # editResults edit e p dh files (generateStep edit e p dh file st)"

text \<open>
  What a turn of the loop reports for a file and the result of its edit call: nothing
  when a record is made, otherwise its one message.
\<close>

definition failureMessage :: "FileWithPreview \<times> (js_error + jsstring option) \<Rightarrow> jsstring option" where
  "failureMessage fr =
     (case snd fr of
        Inr u \<Rightarrow> if truthy u then None else Some (msg_no_image (name (fst fr)))
      | Inl ex \<Rightarrow> Some (msg_processing (name (fst fr)) ex))"

text \<open>
  The file name, the data URL and the prompt of the record a turn makes, if it makes one.
\<close>

definition successRecord ::
  "jsstring \<Rightarrow> FileWithPreview \<times> (js_error + jsstring option) \<Rightarrow> (jsstring \<times> jsstring \<times> jsstring) option"
where
  "successRecord p fr =
     (case snd fr of
        Inr u \<Rightarrow> if truthy u then Some (name (fst fr), show_str u, p) else None
      | Inl ex \<Rightarrow> None)"

text \<open>
  The aggregated error text of a batch: absent when nothing failed, otherwise the
  messages joined with a newline.
\<close>

definition spec_error_text :: "jsstring list \<Rightarrow> jsstring option" where
  "spec_error_text ms = (if ms = [] then None else Some (join [10] ms))"

text \<open>
  The remote call an edit of a file issues in a world: one call when a key is stored and
  the file encodes, none otherwise.
\<close>

definition issued :: "jsstring \<Rightarrow> jsstring \<Rightarrow> world \<Rightarrow> FileWithPreview \<Rightarrow> request list" where
  "issued m p w f =
     (if truthy (getApiKey w) \<and> truthy (fileToBase64 f)
      then [ImageRequest (show_str (getApiKey w)) m (show_str (fileToBase64 f)) (type f) p]
      else [])"

text \<open>The number of newline-separated lines of a text.\<close>

definition line_count :: "jsstring \<Rightarrow> nat" where
  "line_count s = Suc (length (filter (\<lambda>c. c = 10) s))"

text \<open>A state with one uploaded file.\<close>

definition single_app :: app where
  "single_app = initialApp\<lparr>uploadedFiles := [example_file (str ''a.png'')],
                prompt := str ''make it blue'', hasApiKey := True\<rparr>"

text \<open>
  The gallery after a batch as the specification words it: each record, in the order of
  creation, is put in front of the accumulator, and the accumulator in front of the
  gallery.
\<close>

definition spec_prepend_each :: "GeneratedImage list \<Rightarrow> GeneratedImage list \<Rightarrow> GeneratedImage list" where
  "spec_prepend_each created gallery = foldl (\<lambda>acc r. r # acc) [] created @ gallery"

text \<open>The records of the two example files, made at the clock readings 1000 and 2000.\<close>

definition record_a :: GeneratedImage where
  "record_a = \<lparr>image_id = str ''a.png-1000'', url = str ''data:image/png;base64,QUJD'',
               image_prompt = str ''make it blue'', originalFileName = str ''a.png''\<rparr>"

definition record_b :: GeneratedImage where
  "record_b = \<lparr>image_id = str ''b.png-2000'', url = str ''data:image/png;base64,QUJD'',
               image_prompt = str ''make it blue'', originalFileName = str ''b.png''\<rparr>"

text \<open>An environment whose storage is full: every \<open>setItem\<close> throws.\<close>

definition full_env :: env where
  "full_env = (example_env (\<lambda>k r. Inr image_response))\<lparr>setItem_throws := (\<lambda>st k v. True)\<rparr>"

text \<open>A world whose storage holds the gallery of the two example records.\<close>

definition gallery_world :: world where
  "gallery_world =
     example_world\<lparr>localStorage :=
        (localStorage example_world)(galleryKey \<mapsto> example_stringify [record_a, record_b])\<rparr>"

text \<open>A state showing that gallery, with its first record selected.\<close>

definition gallery_app :: app where
  "gallery_app = example_app\<lparr>generatedImages := [record_a, record_b], selectedImage := Some record_a\<rparr>"

text \<open>A world whose stored gallery is not JSON.\<close>

definition corrupt_world :: world where
  "corrupt_world =
     example_world\<lparr>localStorage := (localStorage example_world)(galleryKey \<mapsto> str ''{oops'')\<rparr>"

text \<open>A world whose stored gallery is the empty string.\<close>

definition empty_entry_world :: world where
  "empty_entry_world =
     example_world\<lparr>localStorage := (localStorage example_world)(galleryKey \<mapsto> [])\<rparr>"

text \<open>A record whose id is the empty string.\<close>

definition unnamed_record :: GeneratedImage where
  "unnamed_record = \<lparr>image_id = [], url = str ''data:image/png;base64,QUJD'',
                      image_prompt = str ''make it blue'', originalFileName = str ''a.png''\<rparr>"

text \<open>A world and a state whose gallery holds one record, which is selected.\<close>

definition last_world :: world where
  "last_world =
     example_world\<lparr>localStorage :=
        (localStorage example_world)(galleryKey \<mapsto> example_stringify [record_a])\<rparr>"

definition last_app :: app where
  "last_app = example_app\<lparr>generatedImages := [record_a], selectedImage := Some record_a\<rparr>"




text \<open>A remote call that fails with a message of two lines.\<close>

definition newline_message :: jsstring where
  "newline_message = str ''Service unavailable.'' @ [10] @ str ''Please retry later.''"

definition newline_env :: env where
  "newline_env = example_env (\<lambda>k r. Inl (Error (Some newline_message)))"

section \<open>Strings\<close>

lemma str_simps: "str [] = []" "str (c # cs) = of_char c # str cs"
  by (simp_all add: str_def)

lemma js_includes_sublist: "js_includes s n \<longleftrightarrow> sublist n s"
  by (induction s) (auto simp: sublist_Cons_right)

lemma quota_message_is_quota: "is_quota (Error (Some quota_message))"
  by (simp add: is_quota_def message_has_def quota_message_def str_simps)

section \<open>The key validator\<close>

text \<open>
  The copy of \<^verbatim>\<open>src/unnamed/part_000\<close> does what the specification says of
  \<open>validate\<close>: a request that succeeds gives true, one that fails with a quota error
  gives true, any other failure gives false, and the empty key gives false with the world
  (so the list of remote calls) unchanged.
\<close>

lemma validateApiKey_cases:
  "validateApiKey e w [] = (False, w)"
  "apiKey \<noteq> [] \<Longrightarrow>
     fst (validateApiKey e w apiKey) =
       (case generateContent e (length (requests w))
               (TextRequest apiKey (str ''gemini-2.5-flash'') (str ''test'')) of
          Inr r \<Rightarrow> True
        | Inl ex \<Rightarrow> is_quota ex)"
  by (simp_all add: validateApiKey_def callRemote_def Let_def split: sum.splits)

text \<open>
  C1. The copy \<^verbatim>\<open>src/services/geminiService.ts\<close>, which \<^verbatim>\<open>src/App.tsx\<close> imports,
  returns false for a key whose validation request fails with the quota error (status
  RESOURCE_EXHAUSTED, code 429), where the claim and the other copy give true.
\<close>

theorem validateApiKey_svc_rejects_quota:
  "fst (validateApiKey_svc quota_env example_world (str ''AIza-example'')) = False
   \<and> fst (validateApiKey quota_env example_world (str ''AIza-example'')) = True"
  by (simp add: validateApiKey_svc_def validateApiKey_def callRemote_def quota_env_def
      example_env_def quota_message_is_quota str_simps)

section \<open>The uploaded files\<close>

text \<open>
  C9. \<open>removeFile\<close> keeps exactly the entries whose name differs from the given name,
  in their order: no entry of that name is left (however many there were), every other
  entry is kept, and what is kept is a subsequence of the list.
\<close>

theorem removeFile_filter:
  "uploadedFiles (removeFile s fileName) = filter (\<lambda>file. name file \<noteq> fileName) (uploadedFiles s)
   \<and> set (uploadedFiles (removeFile s fileName)) = {file \<in> set (uploadedFiles s). name file \<noteq> fileName}
   \<and> subseq (uploadedFiles (removeFile s fileName)) (uploadedFiles s)"
  by (simp add: removeFile_def)

section \<open>The edit client\<close>









lemma example_key: "getApiKey example_world = Some (str ''AIza-example'')"
  by (simp add: getApiKey_def example_world_def)

lemma example_base64: "fileToBase64 (example_file n) = Some (str ''iVBORw0KGgo='')"
  by (simp add: fileToBase64_def example_file_def split_second_def str_simps)



lemma example_remote: "generateContent (example_env (\<lambda>k r. x)) k r = x"
  by (simp add: example_env_def)


section \<open>The gate of the generation\<close>

lemma trim_empty_iff: "trim s = [] \<longleftrightarrow> list_all is_white s"
proof -
  have first: "dropWhile is_white s = [] \<longleftrightarrow> list_all is_white s"
    by (simp add: dropWhile_eq_Nil_conv list_all_iff)
  have "trim s = [] \<longleftrightarrow> (\<forall>c \<in> set (dropWhile is_white s). is_white c)"
    by (simp add: trim_def dropWhile_eq_Nil_conv)
  also have "\<dots> \<longleftrightarrow> dropWhile is_white s = []"
  proof
    assume all: "\<forall>c \<in> set (dropWhile is_white s). is_white c"
    show "dropWhile is_white s = []"
    proof (rule ccontr)
      assume ne: "dropWhile is_white s \<noteq> []"
      then have "\<not> is_white (hd (dropWhile is_white s))" by (rule hd_dropWhile)
      moreover have "hd (dropWhile is_white s) \<in> set (dropWhile is_white s)"
        using ne by simp
      ultimately show False using all by blast
    qed
  next
    assume "dropWhile is_white s = []"
    then show "\<forall>c \<in> set (dropWhile is_white s). is_white c" by (simp only: set_simps ball_empty)
  qed
  finally show ?thesis using first by simp
qed

lemma gate_messages_distinct: "distinct [msg_need_key, msg_need_file, msg_need_prompt]"
  by (simp add: msg_need_key_def msg_need_file_def msg_need_prompt_def str_simps)

text \<open>
  C7. \<open>handleGenerate\<close> tests, in this order, the key flag, the uploaded files and the
  trimmed prompt. The first test that fails sets its own message (the three messages
  differ) and returns with the world unchanged, so without any remote call, whatever the
  edit function is; the missing key also opens the settings panel.
\<close>

theorem handleGenerate_gate:
  "(\<not> hasApiKey s \<longrightarrow>
      handleGenerate edit e s w = (s\<lparr>error := Some msg_need_key, isSettingsOpen := True\<rparr>, w))
   \<and> (hasApiKey s \<and> uploadedFiles s = [] \<longrightarrow>
      handleGenerate edit e s w = (s\<lparr>error := Some msg_need_file\<rparr>, w))
   \<and> (hasApiKey s \<and> uploadedFiles s \<noteq> [] \<and> list_all is_white (prompt s) \<longrightarrow>
      handleGenerate edit e s w = (s\<lparr>error := Some msg_need_prompt\<rparr>, w))
   \<and> distinct [msg_need_key, msg_need_file, msg_need_prompt]"
  using gate_messages_distinct by (simp add: handleGenerate_def trim_empty_iff)

theorem handleGenerate_gate_witness:
  "handleGenerate (editImageWithPrompt_svc quota_env) quota_env
      (example_app\<lparr>hasApiKey := False\<rparr>) example_world
     = (example_app\<lparr>hasApiKey := False, error := Some msg_need_key, isSettingsOpen := True\<rparr>,
        example_world)
   \<and> handleGenerate (editImageWithPrompt_svc quota_env) quota_env
      (example_app\<lparr>uploadedFiles := []\<rparr>) example_world
     = (example_app\<lparr>uploadedFiles := [], error := Some msg_need_file\<rparr>, example_world)
   \<and> handleGenerate (editImageWithPrompt_svc quota_env) quota_env
      (example_app\<lparr>prompt := [32, 9, 10, 160]\<rparr>) example_world
     = (example_app\<lparr>prompt := [32, 9, 10, 160], error := Some msg_need_prompt\<rparr>, example_world)"
  using handleGenerate_gate [of "example_app\<lparr>hasApiKey := False\<rparr>"
      "editImageWithPrompt_svc quota_env" quota_env example_world]
    handleGenerate_gate [of "example_app\<lparr>uploadedFiles := []\<rparr>"
      "editImageWithPrompt_svc quota_env" quota_env example_world]
    handleGenerate_gate [of "example_app\<lparr>prompt := [32, 9, 10, 160]\<rparr>"
      "editImageWithPrompt_svc quota_env" quota_env example_world]
  by (simp add: example_app_def initialApp_def is_white_def)


section \<open>The generation loop\<close>

subsection \<open>One turn and the whole loop\<close>

lemma join_merge: "join [c] ((a @ c # m) # ms) = a @ c # join [c] (m # ms)"
  by (cases ms) simp_all

lemma foldl_appendError:
  "a \<noteq> [] \<Longrightarrow> \<forall>m \<in> set ms. m \<noteq> [] \<Longrightarrow> foldl appendError (Some a) ms = Some (join [10] (a # ms))"
proof (induction ms arbitrary: a)
  case Nil
  then show ?case by simp
next
  case (Cons m ms)
  have "foldl appendError (Some a) (m # ms) = foldl appendError (Some (a @ [10] @ m)) ms"
    using Cons.prems by (simp add: appendError_def truthy_def show_str_def)
  also have "\<dots> = Some (join [10] ((a @ [10] @ m) # ms))"
    using Cons.prems by (intro Cons.IH) simp_all
  finally show ?case by (simp add: join_merge)
qed

lemma foldl_appendError_None:
  "\<forall>m \<in> set ms. m \<noteq> [] \<Longrightarrow> foldl appendError None ms = spec_error_text ms"
proof (cases ms)
  case Nil
  then show ?thesis by (simp add: spec_error_text_def)
next
  case (Cons m ms')
  assume "\<forall>m \<in> set ms. m \<noteq> []"
  with Cons have ne: "m \<noteq> []" "\<forall>x \<in> set ms'. x \<noteq> []" by simp_all
  have "foldl appendError None ms = foldl appendError (Some m) ms'"
    using Cons by (simp add: appendError_def truthy_def)
  then show ?thesis using foldl_appendError [OF ne] Cons by (simp add: spec_error_text_def)
qed

lemma failureMessage_nonempty: "failureMessage fr = Some m \<Longrightarrow> m \<noteq> []"
  by (auto simp: failureMessage_def msg_no_image_def msg_processing_def str_simps
      split: sum.splits if_splits)

lemma generateStep_error:
  "error (fst (snd (generateStep edit e p dh file (acc, s, w)))) =
     (case failureMessage (file, fst (edit w file p)) of
        None \<Rightarrow> error s
      | Some m \<Rightarrow> appendError (error s) m)"
  by (simp add: generateStep_def failureMessage_def Let_def
      split: prod.splits sum.splits option.splits)

lemma generateStep_acc:
  "map (\<lambda>g. (originalFileName g, url g, image_prompt g)) (fst (generateStep edit e p dh file (acc, s, w))) =
     map (\<lambda>g. (originalFileName g, url g, image_prompt g)) acc
     @ (case successRecord p (file, fst (edit w file p)) of None \<Rightarrow> [] | Some x \<Rightarrow> [x])"
  by (simp add: generateStep_def successRecord_def Let_def
      split: prod.splits sum.splits option.splits)

lemma generateStep_gallery:
  "generatedImages (fst (snd (generateStep edit e p dh file (acc, s, w)))) = generatedImages s"
  by (simp add: generateStep_def Let_def split: prod.splits sum.splits option.splits)

lemma generateLoop_error:
  "error (fst (snd (generateLoop edit e p dh files (acc, s, w)))) =
     foldl appendError (error s)
       (List.map_filter failureMessage (zip files (editResults edit e p dh files (acc, s, w))))"
proof (induction files arbitrary: acc s w)
  case Nil
  then show ?case by simp
next
  case (Cons f fs)
  obtain acc1 s1 w1 where st: "generateStep edit e p dh f (acc, s, w) = (acc1, s1, w1)"
    by (cases "generateStep edit e p dh f (acc, s, w)") auto
  have e1: "error s1 = (case failureMessage (f, fst (edit w f p)) of
        None \<Rightarrow> error s | Some m \<Rightarrow> appendError (error s) m)"
    using generateStep_error [of edit e p dh f acc s w] st by simp
  show ?case
    using Cons.IH [of acc1 s1 w1] st e1
    by (simp split: option.splits)
qed

lemma generateLoop_acc:
  "map (\<lambda>g. (originalFileName g, url g, image_prompt g)) (fst (generateLoop edit e p dh files (acc, s, w))) =
     map (\<lambda>g. (originalFileName g, url g, image_prompt g)) acc
     @ List.map_filter (successRecord p) (zip files (editResults edit e p dh files (acc, s, w)))"
proof (induction files arbitrary: acc s w)
  case Nil
  then show ?case by simp
next
  case (Cons f fs)
  obtain acc1 s1 w1 where st: "generateStep edit e p dh f (acc, s, w) = (acc1, s1, w1)"
    by (cases "generateStep edit e p dh f (acc, s, w)") auto
  have a1: "map (\<lambda>g. (originalFileName g, url g, image_prompt g)) acc1 =
     map (\<lambda>g. (originalFileName g, url g, image_prompt g)) acc
     @ (case successRecord p (f, fst (edit w f p)) of None \<Rightarrow> [] | Some x \<Rightarrow> [x])"
    using generateStep_acc [of edit e p dh f acc s w] st by simp
  show ?case
    using Cons.IH [of acc1 s1 w1] st a1
    by (simp split: option.splits)
qed

lemma generateLoop_gallery:
  "generatedImages (fst (snd (generateLoop edit e p dh files (acc, s, w)))) = generatedImages s"
proof (induction files arbitrary: acc s w)
  case Nil
  then show ?case by simp
next
  case (Cons f fs)
  obtain acc1 s1 w1 where st: "generateStep edit e p dh f (acc, s, w) = (acc1, s1, w1)"
    by (cases "generateStep edit e p dh f (acc, s, w)") auto
  show ?case
    using Cons.IH [of acc1 s1 w1] st generateStep_gallery [of edit e p dh f acc s w] by simp
qed

lemma editResults_length: "length (editResults edit e p dh files st) = length files"
  by (induction files arbitrary: st) simp_all

lemma failure_or_success:
  "(failureMessage fr = None) \<longleftrightarrow> (successRecord p fr \<noteq> None)"
  by (simp add: failureMessage_def successRecord_def split: sum.splits)

lemma map_filter_partition:
  "length (List.map_filter failureMessage xs) + length (List.map_filter (successRecord p) xs) = length xs"
proof (induction xs)
  case Nil
  then show ?case by simp
next
  case (Cons x xs)
  then show ?case
    using failure_or_success [of x p]
    by (cases "failureMessage x"; cases "successRecord p x") simp_all
qed

lemma editCatch_world:
  "localStorage (snd (editCatch w ex)) = localStorage w"
  "requests (snd (editCatch w ex)) = requests w"
  by (simp_all add: editCatch_def console_error_def Let_def)

lemma editCatch_svc_world:
  "localStorage (snd (editCatch_svc w ex)) = localStorage w"
  "requests (snd (editCatch_svc w ex)) = requests w"
  by (simp_all add: editCatch_svc_def console_error_def Let_def)

lemma editImageWithPrompt_world:
  "localStorage (snd (editImageWithPrompt e w f p m)) = localStorage w"
  "requests (snd (editImageWithPrompt e w f p m)) = requests w @ issued m p w f"
  by (simp_all add: editImageWithPrompt_def issued_def callRemote_def editCatch_world
      console_error_def split: sum.splits option.splits)

lemma editImageWithPrompt_svc_world:
  "localStorage (snd (editImageWithPrompt_svc e w f p)) = localStorage w"
  "requests (snd (editImageWithPrompt_svc e w f p)) =
     requests w @ issued (str ''gemini-2.5-flash-image'') p w f"
  by (simp_all add: editImageWithPrompt_svc_def issued_def callRemote_def editCatch_svc_world
      console_error_def split: sum.splits option.splits)

lemma saveImageToFileSystem_world:
  "localStorage (saveImageToFileSystem dh w u n) = localStorage w"
  "requests (saveImageToFileSystem dh w u n) = requests w"
  by (simp_all add: saveImageToFileSystem_def console_error_def Let_def split: option.splits)

lemma generateStep_world:
  "localStorage (snd (snd (generateStep edit e p dh f (acc, s, w)))) = localStorage (snd (edit w f p))"
  "requests (snd (snd (generateStep edit e p dh f (acc, s, w)))) = requests (snd (edit w f p))"
  by (simp_all add: generateStep_def now_def console_error_def saveImageToFileSystem_world Let_def
      split: prod.splits sum.splits option.splits)

lemma issued_cong: "localStorage w1 = localStorage w \<Longrightarrow> issued m p w1 f = issued m p w f"
  by (simp add: issued_def getApiKey_def)

lemma generateLoop_requests:
  assumes edit: "\<And>w f. localStorage (snd (edit w f p)) = localStorage w
                     \<and> requests (snd (edit w f p)) = requests w @ issued m p w f"
  shows "localStorage (snd (snd (generateLoop edit e p dh files (acc, s, w)))) = localStorage w
         \<and> requests (snd (snd (generateLoop edit e p dh files (acc, s, w)))) =
             requests w @ concat (map (issued m p w) files)"
proof (induction files arbitrary: acc s w)
  case Nil
  then show ?case by simp
next
  case (Cons f fs)
  obtain acc1 s1 w1 where st: "generateStep edit e p dh f (acc, s, w) = (acc1, s1, w1)"
    by (cases "generateStep edit e p dh f (acc, s, w)") auto
  have w1: "localStorage w1 = localStorage w" "requests w1 = requests w @ issued m p w f"
    using generateStep_world [of edit e p dh f acc s w] st edit [of w f] by simp_all
  have "issued m p w1 = issued m p w"
    by (rule ext) (rule issued_cong [OF w1(1)])
  then show ?case using Cons.IH [of acc1 s1 w1] st w1 by simp
qed

lemma issued_one: "length (issued m p w f) \<le> 1"
  by (simp add: issued_def)

lemma issued_length: "length (concat (map (issued m p w) files)) \<le> length files"
proof (induction files)
  case Nil
  then show ?case by simp
next
  case (Cons f fs)
  then show ?case using issued_one [of m p w f] by simp
qed

subsection \<open>The loop on the examples\<close>

lemma example_key_truthy: "truthy (getApiKey example_world)"
  by (simp add: getApiKey_def example_world_def truthy_def str_simps)

lemma prompt_trim: "trim (str ''make it blue'') \<noteq> []"
  by (simp add: trim_def is_white_def str_simps)

lemma getApiKey_update [simp]:
  "getApiKey (w\<lparr>requests := r\<rparr>) = getApiKey w"
  "getApiKey (w\<lparr>console := c\<rparr>) = getApiKey w"
  "getApiKey (w\<lparr>clockReads := k\<rparr>) = getApiKey w"
  by (simp_all add: getApiKey_def)

lemma example_file_fields:
  "name (example_file n) = n" "type (example_file n) = str ''image/png''"
  by (simp_all add: example_file_def)

lemma edit_svc_image:
  "truthy (getApiKey w) \<Longrightarrow>
   editImageWithPrompt_svc image_env w (example_file n) p =
     (Inr (Some (str ''data:image/png;base64,QUJD'')),
      w\<lparr>requests := requests w @ [ImageRequest (show_str (getApiKey w)) (str ''gemini-2.5-flash-image'')
                                    (str ''iVBORw0KGgo='') (str ''image/png'') p]\<rparr>)"
  by (simp add: editImageWithPrompt_svc_def example_base64 example_file_fields truthy_def
      callRemote_def image_env_def example_env_def responseParts_def image_response_def
      dataUrl_def show_str_def str_simps)

lemma image_step:
  "truthy (getApiKey w) \<Longrightarrow>
   generateStep (editImageWithPrompt_svc image_env) image_env p None (example_file n) (acc, s, w) =
     (acc @ [\<lparr>image_id = n @ str ''-'' @ show_nat (1000 * Suc (clockReads w)),
              url = str ''data:image/png;base64,QUJD'', image_prompt = p, originalFileName = n\<rparr>],
      s,
      w\<lparr>requests := requests w @ [ImageRequest (show_str (getApiKey w)) (str ''gemini-2.5-flash-image'')
                                    (str ''iVBORw0KGgo='') (str ''image/png'') p],
        clockReads := Suc (clockReads w)\<rparr>)"
  by (simp add: generateStep_def edit_svc_image)
     (simp add: now_def image_env_def example_env_def truthy_def show_str_def example_file_fields
        str_simps)

lemma example_gallery:
  "generatedImages (fst (handleGenerate (editImageWithPrompt_svc image_env) image_env
      example_app example_world)) = [record_a, record_b]"
  by (simp add: handleGenerate_def example_app_def initialApp_def prompt_trim image_step example_key_truthy)
     (simp add: example_world_def record_a_def record_b_def show_nat.simps str_simps)

lemma getApiKey_console_error [simp]: "getApiKey (console_error w l) = getApiKey w"
  by (simp add: console_error_def)

lemma example_app_fields:
  "uploadedFiles example_app = [example_file (str ''a.png''), example_file (str ''b.png'')]"
  "prompt example_app = str ''make it blue''"
  "directoryHandle example_app = None"
  "generatedImages example_app = []"
  "hasApiKey example_app"
  by (simp_all add: example_app_def initialApp_def)

lemma example_app_gate:
  "hasApiKey example_app" "uploadedFiles example_app \<noteq> []" "trim (prompt example_app) \<noteq> []"
  by (simp_all add: example_app_fields prompt_trim)

lemma example_issued:
  "concat (map (issued m (prompt example_app) example_world) (uploadedFiles example_app))
     = [ImageRequest (str ''AIza-example'') m (str ''iVBORw0KGgo='') (str ''image/png'')
          (str ''make it blue''),
        ImageRequest (str ''AIza-example'') m (str ''iVBORw0KGgo='') (str ''image/png'')
          (str ''make it blue'')]"
  by (simp add: example_app_fields issued_def example_key example_base64
      example_file_fields truthy_def show_str_def str_simps)

lemma image_results:
  "editResults (editImageWithPrompt_svc image_env)
      image_env (prompt example_app) (directoryHandle example_app) (uploadedFiles example_app)
      ([], example_app\<lparr>isLoading := True, error := None\<rparr>, example_world)
     = [Inr (Some (str ''data:image/png;base64,QUJD'')),
        Inr (Some (str ''data:image/png;base64,QUJD''))]"
  by (simp add: example_app_fields image_step edit_svc_image example_key_truthy)

lemma image_successes:
  "List.map_filter (successRecord (prompt example_app))
     (zip (uploadedFiles example_app)
        [Inr (Some (str ''data:image/png;base64,QUJD'')),
         Inr (Some (str ''data:image/png;base64,QUJD''))])
     = [(str ''a.png'', str ''data:image/png;base64,QUJD'', str ''make it blue''),
        (str ''b.png'', str ''data:image/png;base64,QUJD'', str ''make it blue'')]"
  by (simp add: example_app_fields successRecord_def example_file_fields truthy_def show_str_def
      str_simps)

lemma quota_message_facts:
  "\<not> is_credential (Error (Some quota_message))" "\<not> mentionsApiKey (Error (Some quota_message))"
  by (simp_all add: is_credential_def mentionsApiKey_def message_has_def quota_message_def str_simps)

lemma edit_svc_quota:
  "truthy (getApiKey w) \<Longrightarrow>
   fst (editImageWithPrompt_svc quota_env w (example_file n) p) = Inl (Error (Some quota_message))"
  by (simp add: editImageWithPrompt_svc_def example_base64 truthy_def callRemote_def quota_env_def
      example_env_def editCatch_svc_def quota_message_facts Let_def str_simps)

lemma single_quota_state_svc:
  "fst (handleGenerate (editImageWithPrompt_svc quota_env) quota_env single_app example_world)
     = single_app\<lparr>error := Some (msg_processing (str ''a.png'') (Error (Some quota_message)))\<rparr>"
proof -
  obtain r w1 where ed: "editImageWithPrompt_svc quota_env example_world (example_file (str ''a.png''))
      (str ''make it blue'') = (r, w1)"
    by (cases "editImageWithPrompt_svc quota_env example_world (example_file (str ''a.png''))
      (str ''make it blue'')") auto
  then have r: "r = Inl (Error (Some quota_message))"
    using edit_svc_quota [OF example_key_truthy, of "str ''a.png''" "str ''make it blue''"] by simp
  show ?thesis
    using ed r
    by (simp add: handleGenerate_def single_app_def initialApp_def prompt_trim generateStep_def
        quota_message_facts appendError_def truthy_def Let_def example_file_def)
qed


lemma newline_message_facts:
  "\<not> is_credential (Error (Some newline_message))"
  "\<not> mentionsApiKey (Error (Some newline_message))"
  by (simp_all add: is_credential_def mentionsApiKey_def message_has_def newline_message_def
      str_simps)

lemma edit_svc_failure:
  "truthy (getApiKey w) \<Longrightarrow> \<not> is_credential (Error (Some msg)) \<Longrightarrow>
   editImageWithPrompt_svc (example_env (\<lambda>k r. Inl (Error (Some msg)))) w (example_file n) p =
     (Inl (Error (Some msg)),
      w\<lparr>console := console w @ [log_edit],
        requests := requests w @ [ImageRequest (show_str (getApiKey w)) (str ''gemini-2.5-flash-image'')
                                    (str ''iVBORw0KGgo='') (str ''image/png'') p]\<rparr>)"
  by (simp add: editImageWithPrompt_svc_def example_base64 example_file_fields truthy_def
      callRemote_def example_remote editCatch_svc_def Let_def console_error_def show_str_def
      str_simps)

lemma failure_step:
  "truthy (getApiKey w) \<Longrightarrow> \<not> is_credential (Error (Some msg)) \<Longrightarrow>
   \<not> mentionsApiKey (Error (Some msg)) \<Longrightarrow>
   generateStep (editImageWithPrompt_svc (example_env (\<lambda>k r. Inl (Error (Some msg)))))
      (example_env (\<lambda>k r. Inl (Error (Some msg)))) p None (example_file n) (acc, s, w) =
     (acc,
      s\<lparr>error := appendError (error s) (msg_processing n (Error (Some msg)))\<rparr>,
      w\<lparr>console := console w @ [log_edit, str ''Error processing '' @ n @ str '':''],
        requests := requests w @ [ImageRequest (show_str (getApiKey w)) (str ''gemini-2.5-flash-image'')
                                    (str ''iVBORw0KGgo='') (str ''image/png'') p]\<rparr>)"
  by (simp add: generateStep_def edit_svc_failure)
     (simp add: example_file_fields console_error_def Let_def)

lemma single_app_fields:
  "uploadedFiles single_app = [example_file (str ''a.png'')]"
  "prompt single_app = str ''make it blue''"
  "directoryHandle single_app = None"
  "hasApiKey single_app" "\<not> isSettingsOpen single_app"
  by (simp_all add: single_app_def initialApp_def)

lemma single_failure_state:
  "\<not> is_credential (Error (Some msg)) \<Longrightarrow> \<not> mentionsApiKey (Error (Some msg)) \<Longrightarrow>
   fst (handleGenerate (editImageWithPrompt_svc (example_env (\<lambda>k r. Inl (Error (Some msg)))))
          (example_env (\<lambda>k r. Inl (Error (Some msg)))) single_app example_world)
     = single_app\<lparr>error := Some (msg_processing (str ''a.png'') (Error (Some msg)))\<rparr>"
  by (simp add: handleGenerate_def single_app_fields prompt_trim failure_step example_key_truthy)
     (simp add: appendError_def truthy_def single_app_def initialApp_def)

lemma newline_lines:
  "line_count (msg_processing (str ''a.png'') (Error (Some newline_message))) = 2"
  by (simp add: line_count_def msg_processing_def newline_message_def show_str_def str_simps)

lemma quota_results:
  "editResults (editImageWithPrompt_svc quota_env)
      quota_env (prompt example_app) (directoryHandle example_app) (uploadedFiles example_app)
      ([], example_app\<lparr>isLoading := True, error := None\<rparr>, example_world)
     = [Inl (Error (Some quota_message)), Inl (Error (Some quota_message))]"
  by (simp add: example_app_fields quota_env_def failure_step edit_svc_failure
      quota_message_facts [unfolded quota_env_def] example_key_truthy)

lemma quota_messages:
  "List.map_filter failureMessage
     (zip (uploadedFiles example_app)
        [Inl (Error (Some quota_message)), Inl (Error (Some quota_message))])
     = [msg_processing (str ''a.png'') (Error (Some quota_message)),
        msg_processing (str ''b.png'') (Error (Some quota_message))]"
  by (simp add: example_app_fields failureMessage_def example_file_fields)

lemma quota_guidance:
  "js_includes msg_quota (str ''billing'')"
  "\<not> js_includes (msg_processing (str ''a.png'') (Error (Some quota_message))) (str ''billing'')"
  by (simp_all add: msg_quota_def msg_processing_def quota_message_def show_str_def str_simps)

lemma edit_quota:
  "truthy (getApiKey w) \<Longrightarrow>
   fst (editImageWithPrompt quota_env w (example_file n) p m) = Inl (Error (Some msg_quota))"
  by (simp add: editImageWithPrompt_def example_base64 truthy_def callRemote_def quota_env_def
      example_env_def editCatch_def quota_message_is_quota Let_def str_simps)

subsection \<open>The calls and the error text of a batch\<close>

text \<open>
  C4 (amended). A batch that passes the gate and runs without another handler in between
  makes one edit call for each uploaded file, in upload order, each on the world the one
  before has left. With the service the component imports these calls issue, in that
  order, one remote call for each file that encodes when a key is stored, and none
  otherwise: at most as many as there are files. After the loop the error text is the
  newline-joined list of one message for each file that gave no record, in upload order
  (absent when there is none). A message holds the name of the file and the text of the
  error, and either may hold newlines. The messages and the new records together are as
  many as the files.
\<close>

theorem handleGenerate_batch:
  assumes gate: "hasApiKey s" "uploadedFiles s \<noteq> []" "trim (prompt s) \<noteq> []"
  shows "length (editResults edit e (prompt s) (directoryHandle s) (uploadedFiles s)
                   ([], s\<lparr>isLoading := True, error := None\<rparr>, w)) = length (uploadedFiles s)
       \<and> error (fst (handleGenerate edit e s w)) =
           spec_error_text (List.map_filter failureMessage
             (zip (uploadedFiles s)
                (editResults edit e (prompt s) (directoryHandle s) (uploadedFiles s)
                   ([], s\<lparr>isLoading := True, error := None\<rparr>, w))))
       \<and> length (List.map_filter failureMessage
             (zip (uploadedFiles s)
                (editResults edit e (prompt s) (directoryHandle s) (uploadedFiles s)
                   ([], s\<lparr>isLoading := True, error := None\<rparr>, w))))
           + length (generatedImages (fst (handleGenerate edit e s w)))
         = length (uploadedFiles s) + length (generatedImages s)
       \<and> requests (snd (handleGenerate (editImageWithPrompt_svc e) e s w)) =
           requests w @ concat (map (issued (str ''gemini-2.5-flash-image'') (prompt s) w) (uploadedFiles s))
       \<and> length (concat (map (issued (str ''gemini-2.5-flash-image'') (prompt s) w) (uploadedFiles s)))
           \<le> length (uploadedFiles s)"
proof -
  let ?s0 = "s\<lparr>isLoading := True, error := None\<rparr>"
  let ?rs = "editResults edit e (prompt s) (directoryHandle s) (uploadedFiles s) ([], ?s0, w)"
  let ?zs = "zip (uploadedFiles s) ?rs"
  let ?ms = "List.map_filter failureMessage ?zs"
  obtain acc s1 w1 where loop:
    "generateLoop edit e (prompt s) (directoryHandle s) (uploadedFiles s) ([], ?s0, w) = (acc, s1, w1)"
    by (cases "generateLoop edit e (prompt s) (directoryHandle s) (uploadedFiles s) ([], ?s0, w)") auto
  have hg: "handleGenerate edit e s w =
      (s1\<lparr>generatedImages := acc @ generatedImages s1, isLoading := False\<rparr>, w1)"
    using gate loop by (simp add: handleGenerate_def)
  have len: "length ?rs = length (uploadedFiles s)" by (rule editResults_length)
  have "\<forall>m \<in> set ?ms. m \<noteq> []"
    by (auto simp: List.map_filter_def dest: failureMessage_nonempty)
  then have "foldl appendError None ?ms = spec_error_text ?ms" by (rule foldl_appendError_None)
  moreover have "error s1 = foldl appendError None ?ms"
    using generateLoop_error [of edit e "prompt s" "directoryHandle s" "uploadedFiles s" "[]" ?s0 w] loop
    by simp
  ultimately have err: "error (fst (handleGenerate edit e s w)) = spec_error_text ?ms"
    using hg by simp
  have "length acc = length (List.map_filter (successRecord (prompt s)) ?zs)"
    using generateLoop_acc [of edit e "prompt s" "directoryHandle s" "uploadedFiles s" "[]" ?s0 w] loop
    by (metis (no_types, lifting) append_Nil fst_conv length_map list.simps(8))
  moreover have "generatedImages s1 = generatedImages s"
    using generateLoop_gallery [of edit e "prompt s" "directoryHandle s" "uploadedFiles s" "[]" ?s0 w] loop
    by simp
  moreover have "length ?ms + length (List.map_filter (successRecord (prompt s)) ?zs) = length ?zs"
    by (rule map_filter_partition)
  ultimately have cnt: "length ?ms + length (generatedImages (fst (handleGenerate edit e s w)))
      = length (uploadedFiles s) + length (generatedImages s)"
    using hg len by simp
  have r2: "requests (snd (handleGenerate (editImageWithPrompt_svc e) e s w)) =
           requests w @ concat (map (issued (str ''gemini-2.5-flash-image'') (prompt s) w) (uploadedFiles s))"
    using gate generateLoop_requests [of "editImageWithPrompt_svc e" "prompt s"
        "str ''gemini-2.5-flash-image''" e "directoryHandle s" "uploadedFiles s" "[]" ?s0 w]
    by (cases "generateLoop (editImageWithPrompt_svc e) e (prompt s)
          (directoryHandle s) (uploadedFiles s) ([], ?s0, w)")
      (simp add: handleGenerate_def editImageWithPrompt_svc_world)
  show ?thesis using len err cnt r2 issued_length by blast
qed

theorem handleGenerate_batch_witness:
  "error (fst (handleGenerate (editImageWithPrompt_svc quota_env) quota_env example_app
      example_world))
     = Some (msg_processing (str ''a.png'') (Error (Some quota_message)) @ [10]
             @ msg_processing (str ''b.png'') (Error (Some quota_message)))
   \<and> requests (snd (handleGenerate (editImageWithPrompt_svc quota_env) quota_env example_app
      example_world))
     = [ImageRequest (str ''AIza-example'') (str ''gemini-2.5-flash-image'') (str ''iVBORw0KGgo='')
          (str ''image/png'') (str ''make it blue''),
        ImageRequest (str ''AIza-example'') (str ''gemini-2.5-flash-image'') (str ''iVBORw0KGgo='')
          (str ''image/png'') (str ''make it blue'')]"
  using handleGenerate_batch [OF example_app_gate,
      of "editImageWithPrompt_svc quota_env" quota_env example_world,
      unfolded quota_results quota_messages example_issued]
  by (simp add: spec_error_text_def example_world_def)

text \<open>
  C4 as stated fails: a single file whose remote call fails with a message of two lines
  leaves an error text of two lines for one failed file.
\<close>

theorem error_lines_counterexample:
  "map_option line_count
     (error (fst (handleGenerate (editImageWithPrompt_svc newline_env) newline_env
        single_app example_world))) = Some 2
   \<and> length (uploadedFiles single_app) = 1"
  using single_failure_state [OF newline_message_facts]
  by (simp add: newline_env_def newline_lines single_app_fields)

subsection \<open>The order of the gallery\<close>

text \<open>
  C5 (amended). A batch that passes the gate puts its new records in front of the gallery
  as one block and leaves the older records as they were; within the block the records
  stand in upload order (each is added at the end of the accumulator), one for each file
  whose edit call returned a data URL, with the name of the file, the data URL and the
  prompt.
\<close>

theorem handleGenerate_gallery_order:
  assumes gate: "hasApiKey s" "uploadedFiles s \<noteq> []" "trim (prompt s) \<noteq> []"
  shows "\<exists>new. generatedImages (fst (handleGenerate edit e s w)) = new @ generatedImages s
           \<and> map (\<lambda>g. (originalFileName g, url g, image_prompt g)) new =
               List.map_filter (successRecord (prompt s))
                 (zip (uploadedFiles s)
                    (editResults edit e (prompt s) (directoryHandle s) (uploadedFiles s)
                       ([], s\<lparr>isLoading := True, error := None\<rparr>, w)))"
proof -
  let ?s0 = "s\<lparr>isLoading := True, error := None\<rparr>"
  obtain acc s1 w1 where loop:
    "generateLoop edit e (prompt s) (directoryHandle s) (uploadedFiles s) ([], ?s0, w) = (acc, s1, w1)"
    by (cases "generateLoop edit e (prompt s) (directoryHandle s) (uploadedFiles s) ([], ?s0, w)") auto
  have hg: "generatedImages (fst (handleGenerate edit e s w)) = acc @ generatedImages s1"
    using gate loop by (simp add: handleGenerate_def)
  have old: "generatedImages s1 = generatedImages s"
    using generateLoop_gallery [of edit e "prompt s" "directoryHandle s" "uploadedFiles s" "[]" ?s0 w] loop
    by simp
  have new: "map (\<lambda>g. (originalFileName g, url g, image_prompt g)) acc =
      List.map_filter (successRecord (prompt s))
        (zip (uploadedFiles s)
           (editResults edit e (prompt s) (directoryHandle s) (uploadedFiles s) ([], ?s0, w)))"
    using generateLoop_acc [of edit e "prompt s" "directoryHandle s" "uploadedFiles s" "[]" ?s0 w] loop
    by simp
  show ?thesis using hg old new by auto
qed

theorem handleGenerate_gallery_order_witness:
  "\<exists>new. generatedImages (fst (handleGenerate (editImageWithPrompt_svc image_env) image_env
              example_app example_world)) = new @ generatedImages example_app
     \<and> map (\<lambda>g. (originalFileName g, url g, image_prompt g)) new =
         [(str ''a.png'', str ''data:image/png;base64,QUJD'', str ''make it blue''),
          (str ''b.png'', str ''data:image/png;base64,QUJD'', str ''make it blue'')]"
  using handleGenerate_gallery_order [OF example_app_gate, of "editImageWithPrompt_svc image_env"
      image_env example_world, unfolded image_results image_successes]
  by simp

text \<open>
  C5 as stated fails: with two files that both succeed the gallery shows the record of the
  first file (made at 1000) before the record of the second (made at 2000), since the loop
  adds each record at the end of the accumulator.
\<close>

theorem batch_order_counterexample:
  "generatedImages (fst (handleGenerate (editImageWithPrompt_svc image_env) image_env
      example_app example_world)) = [record_a, record_b]
   \<and> generatedImages (fst (handleGenerate (editImageWithPrompt_svc image_env) image_env
      example_app example_world))
       \<noteq> spec_prepend_each [record_a, record_b] (generatedImages example_app)"
  by (simp add: example_gallery spec_prepend_each_def)
     (simp add: record_a_def record_b_def str_simps)

subsection \<open>Credential and quota errors in a batch\<close>

text \<open>
  A failure whose message holds "API Key" or "API key" clears the key flag and opens the
  settings panel; any other failure leaves the flag. The credential error of either copy
  of the service, and the error for a missing key, are such failures.
\<close>

lemma credential_mentions_key: "mentionsApiKey (Error (Some msg_credential))"
  by (simp add: mentionsApiKey_def message_has_def msg_credential_def str_simps)

lemma no_key_mentions_key: "mentionsApiKey (Error (Some msg_no_key))"
  by (simp add: mentionsApiKey_def message_has_def msg_no_key_def str_simps)

lemma editCatch_credential:
  "is_credential ex \<Longrightarrow> \<not> is_quota ex \<Longrightarrow> fst (editCatch w ex) = Inl (Error (Some msg_credential))"
  "is_credential ex \<Longrightarrow> fst (editCatch_svc w ex) = Inl (Error (Some msg_credential))"
  by (simp_all add: editCatch_def editCatch_svc_def Let_def)

lemma generateStep_credential:
  assumes "fst (edit w f p) = Inl ex" and "mentionsApiKey ex"
  shows "\<not> hasApiKey (fst (snd (generateStep edit e p dh f (acc, s, w))))
         \<and> isSettingsOpen (fst (snd (generateStep edit e p dh f (acc, s, w))))"
  using assms by (cases "edit w f p") (simp add: generateStep_def Let_def)

lemma generateStep_keeps_flag:
  assumes "fst (edit w f p) = Inl ex" and "\<not> mentionsApiKey ex"
  shows "hasApiKey (fst (snd (generateStep edit e p dh f (acc, s, w)))) = hasApiKey s"
  using assms by (cases "edit w f p") (simp add: generateStep_def Let_def)

text \<open>
  C2. When the remote call of a file fails with the quota error, the
  \<open>editImageWithPrompt\<close> that the component imports
  (\<^verbatim>\<open>src/services/geminiService.ts\<close>) rethrows the error as it came: the key flag is
  kept, but the text shown for the file is the raw error of the service, without any
  remediation guidance. The other copy (\<^verbatim>\<open>src/unnamed/part_000\<close>) replaces the same
  error with its message on billing.
\<close>

theorem quota_error_without_guidance:
  "error (fst (handleGenerate (editImageWithPrompt_svc quota_env) quota_env single_app
      example_world))
     = Some (msg_processing (str ''a.png'') (Error (Some quota_message)))
   \<and> \<not> js_includes (msg_processing (str ''a.png'') (Error (Some quota_message))) (str ''billing'')
   \<and> hasApiKey (fst (handleGenerate (editImageWithPrompt_svc quota_env) quota_env single_app
      example_world))
   \<and> fst (editImageWithPrompt quota_env example_world (example_file (str ''a.png''))
          (str ''make it blue'') (str ''gemini-2.5-flash-image''))
     = Inl (Error (Some msg_quota))
   \<and> js_includes msg_quota (str ''billing'')"
  by (simp add: single_quota_state_svc quota_guidance edit_quota example_key_truthy
      single_app_fields)

section \<open>The stored gallery\<close>

lemma persistEffect_cases:
  "gs \<noteq> [] \<or> truthy (localStorage w galleryKey) \<Longrightarrow>
     \<not> setItem_throws e (localStorage w) galleryKey (JSON_stringify e gs) \<Longrightarrow>
     persistEffect e w gs = w\<lparr>localStorage := (localStorage w)(galleryKey \<mapsto> JSON_stringify e gs)\<rparr>"
  "gs \<noteq> [] \<or> truthy (localStorage w galleryKey) \<Longrightarrow>
     setItem_throws e (localStorage w) galleryKey (JSON_stringify e gs) \<Longrightarrow>
     persistEffect e w gs = console_error w (str ''Failed to save images to localStorage:'')"
  "gs = [] \<Longrightarrow> \<not> truthy (localStorage w galleryKey) \<Longrightarrow> persistEffect e w gs = w"
  by (simp_all add: persistEffect_def)

lemma handleDeleteImage_selected:
  "selectedImage s = Some sel \<Longrightarrow> image_id sel \<noteq> [] \<Longrightarrow>
   handleDeleteImage s w =
     (s\<lparr>generatedImages := filter (\<lambda>img. image_id img \<noteq> image_id sel) (generatedImages s),
        selectedImage := None\<rparr>,
      w\<lparr>alerts := alerts w @ [alert_deleted]\<rparr>)"
  by (simp add: handleDeleteImage_def)

lemma deleteImage_selected:
  "selectedImage s = Some sel \<Longrightarrow> image_id sel \<noteq> [] \<Longrightarrow>
   deleteImage e s w =
     (s\<lparr>generatedImages := filter (\<lambda>img. image_id img \<noteq> image_id sel) (generatedImages s),
        selectedImage := None\<rparr>,
      persistEffect e (w\<lparr>alerts := alerts w @ [alert_deleted]\<rparr>)
        (filter (\<lambda>img. image_id img \<noteq> image_id sel) (generatedImages s)))"
  by (simp add: deleteImage_def handleDeleteImage_selected)

text \<open>
  C6 (amended). When the selected record has a non-empty id, deleting it removes every
  record of that id from the gallery and keeps every other record, in the same order. The
  effect that follows then stores the new gallery under \<open>generatedImages\<close>, provided
  the write does not throw and the new gallery is non-empty or a non-empty entry exists.
\<close>

theorem deleteImage_filter:
  assumes sel: "selectedImage s = Some sel" and id: "image_id sel \<noteq> []"
  shows "generatedImages (fst (deleteImage e s w)) =
           filter (\<lambda>img. image_id img \<noteq> image_id sel) (generatedImages s)
       \<and> ((filter (\<lambda>img. image_id img \<noteq> image_id sel) (generatedImages s) \<noteq> []
             \<or> truthy (localStorage w galleryKey))
          \<and> \<not> setItem_throws e (localStorage w) galleryKey
                (JSON_stringify e (filter (\<lambda>img. image_id img \<noteq> image_id sel) (generatedImages s)))
          \<longrightarrow> localStorage (snd (deleteImage e s w)) galleryKey =
                Some (JSON_stringify e
                  (filter (\<lambda>img. image_id img \<noteq> image_id sel) (generatedImages s))))"
  using sel id by (simp add: deleteImage_selected persistEffect_def)

lemma gallery_app_fields:
  "selectedImage gallery_app = Some record_a" "generatedImages gallery_app = [record_a, record_b]"
  by (simp_all add: gallery_app_def)

lemma record_ids:
  "image_id record_a = str ''a.png-1000''" "image_id record_b = str ''b.png-2000''"
  "str ''a.png-1000'' \<noteq> []" "str ''b.png-2000'' \<noteq> str ''a.png-1000''"
  by (simp_all add: record_a_def record_b_def str_simps)

lemma gallery_entry:
  "localStorage gallery_world galleryKey = Some (example_stringify [record_a, record_b])"
  by (simp add: gallery_world_def)

lemma example_never_throws: "\<not> setItem_throws (example_env r) st k v"
  by (simp add: example_env_def)

lemma full_always_throws: "setItem_throws full_env st k v"
  by (simp add: full_env_def)

lemma example_stringify_env: "JSON_stringify (example_env r) = example_stringify"
  by (simp add: example_env_def)

theorem deleteImage_filter_witness:
  "generatedImages (fst (deleteImage image_env gallery_app gallery_world)) = [record_b]
   \<and> localStorage (snd (deleteImage image_env gallery_app gallery_world)) galleryKey
       = Some (example_stringify [record_b])"
  using deleteImage_filter [where s = gallery_app and sel = record_a and w = gallery_world
      and e = image_env]
  by (simp add: gallery_app_fields record_ids image_env_def example_never_throws
      example_stringify_env)

lemma example_stringify_differs:
  "example_stringify [record_a, record_b] \<noteq> example_stringify [record_b]"
  by (simp add: example_stringify_def record_a_def record_b_def str_simps)

text \<open>
  C6 as stated fails: a selected record whose id is the empty string is not deleted (the
  handler tests the id for truth), and when the storage is full the entry still holds the
  old gallery after the deletion.
\<close>

theorem deleteImage_counterexample:
  "generatedImages (fst (deleteImage image_env
      (example_app\<lparr>generatedImages := [unnamed_record], selectedImage := Some unnamed_record\<rparr>)
      example_world)) = [unnamed_record]
   \<and> localStorage (snd (deleteImage full_env gallery_app gallery_world)) galleryKey
       = Some (example_stringify [record_a, record_b])
   \<and> generatedImages (fst (deleteImage full_env gallery_app gallery_world)) = [record_b]
   \<and> example_stringify [record_a, record_b] \<noteq> example_stringify [record_b]"
  by (simp add: deleteImage_selected gallery_app_fields record_ids persistEffect_def
        full_always_throws console_error_def gallery_entry example_stringify_differs)
     (simp add: deleteImage_def handleDeleteImage_def unnamed_record_def)

lemma keyEffect_fields:
  "generatedImages (keyEffect s w) = generatedImages s" "error (keyEffect s w) = error s"
  by (simp_all add: keyEffect_def)

text \<open>
  C8 (amended). At startup, when the stored gallery is a non-empty string that does not
  parse, the gallery starts empty, the entry is removed from the storage (and nothing
  else is changed there), the failure is printed with \<open>console.error\<close>, and neither
  the error text nor an alert shows anything to the user.
\<close>

theorem startup_corrupt_gallery:
  assumes entry: "localStorage w galleryKey = Some v" and nonempty: "v \<noteq> []"
    and corrupt: "JSON_parse e v = None"
  shows "generatedImages (fst (startup e w)) = []
       \<and> localStorage (snd (startup e w)) = (localStorage w)(galleryKey := None)
       \<and> console (snd (startup e w)) =
           console w @ [str ''Failed to parse stored images from localStorage:'']
       \<and> error (fst (startup e w)) = None
       \<and> alerts (snd (startup e w)) = alerts w"
  using entry nonempty corrupt
  by (simp add: startup_def hydrateEffect_def persistEffect_def truthy_def show_str_def
      console_error_def keyEffect_fields initialApp_def)

lemma corrupt_entry:
  "localStorage corrupt_world galleryKey = Some (str ''{oops'')" "str ''{oops'' \<noteq> []"
  "JSON_parse image_env (str ''{oops'') = None"
  by (simp_all add: corrupt_world_def image_env_def example_env_def example_parse_def str_simps)

theorem startup_corrupt_gallery_witness:
  "generatedImages (fst (startup image_env corrupt_world)) = []
   \<and> localStorage (snd (startup image_env corrupt_world)) galleryKey = None
   \<and> console (snd (startup image_env corrupt_world)) =
       [str ''Failed to parse stored images from localStorage:'']
   \<and> error (fst (startup image_env corrupt_world)) = None
   \<and> alerts (snd (startup image_env corrupt_world)) = []"
  using startup_corrupt_gallery [OF corrupt_entry]
  by (simp add: corrupt_world_def example_world_def)

lemma empty_entry:
  "localStorage empty_entry_world galleryKey = Some []"
  by (simp add: empty_entry_world_def)

text \<open>
  C8 as stated fails: the empty string does not parse as JSON, but the effect tests the
  entry for truth before it parses, so an empty entry is neither removed nor reported.
\<close>

theorem startup_empty_entry_counterexample:
  "localStorage empty_entry_world galleryKey = Some []
   \<and> JSON_parse image_env [] = None
   \<and> localStorage (snd (startup image_env empty_entry_world)) galleryKey = Some []
   \<and> console (snd (startup image_env empty_entry_world)) = []"
  by (simp add: startup_def hydrateEffect_def persistEffect_def truthy_def empty_entry
        initialApp_def)
     (simp add: empty_entry_world_def example_world_def image_env_def example_env_def
        example_parse_def str_simps)

text \<open>
  C10 (amended). When the gallery is non-empty or the entry is a non-empty string, the
  effect calls \<open>setItem\<close> with the serialised gallery: the entry holds it afterwards,
  unless the call throws, which is printed and leaves the storage as it was. When the
  gallery is empty and the entry is absent or the empty string, the effect changes
  nothing, so it never creates the entry. Deleting the last record, with a non-empty
  entry and a write that does not throw, stores the serialised empty gallery and does not
  remove the entry.
\<close>

theorem persistEffect_writes:
  "((gs \<noteq> [] \<or> truthy (localStorage w galleryKey))
      \<and> \<not> setItem_throws e (localStorage w) galleryKey (JSON_stringify e gs)
     \<longrightarrow> persistEffect e w gs =
           w\<lparr>localStorage := (localStorage w)(galleryKey \<mapsto> JSON_stringify e gs)\<rparr>)
   \<and> ((gs \<noteq> [] \<or> truthy (localStorage w galleryKey))
      \<and> setItem_throws e (localStorage w) galleryKey (JSON_stringify e gs)
     \<longrightarrow> persistEffect e w gs = console_error w (str ''Failed to save images to localStorage:''))
   \<and> (gs = [] \<and> \<not> truthy (localStorage w galleryKey) \<longrightarrow> persistEffect e w gs = w)
   \<and> (selectedImage s = Some sel \<and> image_id sel \<noteq> []
      \<and> (\<forall>img \<in> set (generatedImages s). image_id img = image_id sel)
      \<and> truthy (localStorage w galleryKey)
      \<and> \<not> setItem_throws e (localStorage w) galleryKey (JSON_stringify e [])
     \<longrightarrow> generatedImages (fst (deleteImage e s w)) = []
         \<and> localStorage (snd (deleteImage e s w)) galleryKey = Some (JSON_stringify e []))"
proof (intro conjI impI)
  assume a: "selectedImage s = Some sel \<and> image_id sel \<noteq> []
      \<and> (\<forall>img \<in> set (generatedImages s). image_id img = image_id sel)
      \<and> truthy (localStorage w galleryKey)
      \<and> \<not> setItem_throws e (localStorage w) galleryKey (JSON_stringify e [])"
  then have empty: "filter (\<lambda>img. image_id img \<noteq> image_id sel) (generatedImages s) = []"
    by (simp add: filter_empty_conv)
  show "generatedImages (fst (deleteImage e s w)) = []"
    using a empty by (simp add: deleteImage_selected)
  show "localStorage (snd (deleteImage e s w)) galleryKey = Some (JSON_stringify e [])"
    using a empty by (simp add: deleteImage_selected persistEffect_def)
qed (simp_all add: persistEffect_def)

lemma last_entry: "truthy (localStorage last_world galleryKey)"
  by (simp add: last_world_def truthy_def example_stringify_def str_simps)

lemma last_app_fields:
  "selectedImage last_app = Some record_a" "generatedImages last_app = [record_a]"
  by (simp_all add: last_app_def)

theorem persistEffect_writes_witness:
  "localStorage (persistEffect image_env example_world [record_a]) galleryKey
      = Some (example_stringify [record_a])
   \<and> persistEffect full_env example_world [record_a]
      = console_error example_world (str ''Failed to save images to localStorage:'')
   \<and> persistEffect image_env example_world [] = example_world
   \<and> generatedImages (fst (deleteImage image_env last_app last_world)) = []
   \<and> localStorage (snd (deleteImage image_env last_app last_world)) galleryKey
      = Some (example_stringify [])"
  using persistEffect_writes [where gs = "[record_a]" and w = example_world and e = image_env
      and s = last_app and sel = record_a]
    persistEffect_writes [where gs = "[record_a]" and w = example_world and e = full_env
      and s = last_app and sel = record_a]
    persistEffect_writes [where gs = "[]" and w = example_world and e = image_env
      and s = last_app and sel = record_a]
    persistEffect_writes [where gs = "[]" and w = last_world and e = image_env
      and s = last_app and sel = record_a]
  by (simp add: image_env_def example_never_throws example_stringify_env full_always_throws
      last_entry last_app_fields record_ids)
     (simp add: example_world_def truthy_def galleryKey_def str_simps)

text \<open>
  C10 as stated fails: an entry that exists as the empty string is not written while the
  gallery is empty, and when the storage is full, deleting the last record leaves the old
  entry instead of the empty collection.
\<close>

theorem persistEffect_counterexample:
  "localStorage empty_entry_world galleryKey = Some []
   \<and> persistEffect image_env empty_entry_world [] = empty_entry_world
   \<and> localStorage (snd (deleteImage full_env last_app last_world)) galleryKey
       = Some (example_stringify [record_a])
   \<and> generatedImages (fst (deleteImage full_env last_app last_world)) = []
   \<and> example_stringify [record_a] \<noteq> example_stringify []"
  by (simp add: empty_entry persistEffect_def truthy_def deleteImage_selected last_app_fields
        record_ids full_always_throws console_error_def)
     (simp add: last_world_def example_stringify_def str_simps)

end
